theory Spec2Isabelle
  imports Main
begin

section \<open>The lobby page: data model\<close>

text \<open>
  The page \<^verbatim>\<open>src/app/lobby/[id]/page.tsx\<close> is a React function component. Its
  interfaces become records, its \<^verbatim>\<open>useState\<close> cells one record of state, and
  everything it does to the outside (channel emits, \<^verbatim>\<open>alert\<close>, \<^verbatim>\<open>router.push\<close>,
  console output) an entry of an effect log, in program order.
\<close>

text \<open>\<^verbatim>\<open>interface Player { id; name; isReady; isHost }\<close>\<close>

record Player =
  p_id :: string
  p_name :: string
  p_isReady :: bool
  p_isHost :: bool

text \<open>\<^verbatim>\<open>interface Playlist { id; name; tracks; imageUrl? }\<close>; an absent or null
  \<^verbatim>\<open>imageUrl\<close> is \<open>None\<close>.\<close>

record Playlist =
  pl_id :: string
  pl_name :: string
  pl_tracks :: int
  pl_imageUrl :: "string option"

text \<open>The \<^verbatim>\<open>useState\<close> cells of the component, under the source's names.\<close>

record lobby_state =
  players :: "Player list"
  isReady :: bool
  spotifyToken :: "string option"
  playlists :: "Playlist list"
  selectedPlaylist :: "Playlist option"
  showPlaylistDialog :: bool
  isStarting :: bool

text \<open>The client socket returned by \<^verbatim>\<open>useSocket\<close> (null until it exists), and the
  values the component derives from the route.\<close>

record socket =
  connected :: bool
  socket_id :: string

record env =
  socket :: "socket option"
  lobbyId :: string
  playerName :: string
  isHost :: bool

text \<open>Payloads of \<^verbatim>\<open>socket.emit\<close>: the constructor is the event name.\<close>

datatype emit =
    JoinLobby string string bool  \<comment> \<open>\<^verbatim>\<open>joinLobby {lobbyId, playerName, isHost}\<close>\<close>
  | ToggleReady string            \<comment> \<open>\<^verbatim>\<open>toggleReady {lobbyId}\<close>\<close>
  | UpdatePlaylist string string string
                                  \<comment> \<open>\<^verbatim>\<open>updatePlaylist {lobbyId, playlist: {id, name}}\<close>\<close>
  | StartGame string string       \<comment> \<open>\<^verbatim>\<open>startGame {lobbyId, accessToken}\<close>\<close>

datatype effect =
    Emit emit
  | Alert string
  | Push string          \<comment> \<open>\<^verbatim>\<open>router.push(url)\<close>\<close>
  | ConsoleLog string
  | ConsoleError string

text \<open>The \<^verbatim>\<open>lobby\<close> object of a \<^verbatim>\<open>lobbyUpdate\<close> event, and the events the
  service sends.\<close>

record lobby =
  lobby_players :: "Player list"
  spotifyPlaylist :: "Playlist option"

datatype server_event =
    LobbyUpdate lobby
  | GameStart string     \<comment> \<open>the \<^verbatim>\<open>id\<close> of the playlist object\<close>
  | GameStateUpdate
  | ErrorEv string

datatype event_name = EvLobbyUpdate | EvGameStart | EvGameStateUpdate | EvError

fun event_name_of :: "server_event \<Rightarrow> event_name" where
  "event_name_of (LobbyUpdate _) = EvLobbyUpdate"
| "event_name_of (GameStart _) = EvGameStart"
| "event_name_of GameStateUpdate = EvGameStateUpdate"
| "event_name_of (ErrorEv _) = EvError"

text \<open>
  The callbacks handed to \<^verbatim>\<open>socket.on\<close> and \<^verbatim>\<open>socket.once\<close> are closures; each
  becomes a constructor carrying what the closure captured. The acknowledgment
  callback of \<^verbatim>\<open>handleStartGame\<close> captures \<^verbatim>\<open>selectedPlaylist\<close> and
  \<^verbatim>\<open>spotifyToken\<close>; the timeout callback captures \<^verbatim>\<open>isStarting\<close>, the constant
  of the render whose \<^verbatim>\<open>handleStartGame\<close> was called.
\<close>

datatype handler =
    LobbyUpdateHandler
  | GameStartHandler
  | ErrorHandler
  | StartAckHandler Playlist string
  | StartErrorHandler

record listener =
  l_event :: event_name
  l_once :: bool
  l_handler :: handler

datatype timer_callback = StartTimeout bool

record world =
  state :: lobby_state
  effects :: "effect list"
  listeners :: "listener list"      \<comment> \<open>in registration order\<close>
  timers :: "(nat \<times> timer_callback) list"  \<comment> \<open>delay in ms, callback\<close>

definition perform :: "effect list \<Rightarrow> world \<Rightarrow> world" where
  "perform es w = w\<lparr>effects := effects w @ es\<rparr>"

definition emitted :: "world \<Rightarrow> emit list" where
  "emitted w = concat (map (\<lambda>e. case e of Emit p \<Rightarrow> [p] | _ \<Rightarrow> []) (effects w))"

definition alerts :: "world \<Rightarrow> string list" where
  "alerts w = concat (map (\<lambda>e. case e of Alert m \<Rightarrow> [m] | _ \<Rightarrow> []) (effects w))"


text \<open>JavaScript truthiness of a \<^verbatim>\<open>string | null\<close>: null and the empty string are
  falsy.\<close>

definition truthy :: "string option \<Rightarrow> bool" where
  "truthy x = (case x of None \<Rightarrow> False | Some s \<Rightarrow> s \<noteq> [])"

text \<open>\<^verbatim>\<open>x || d\<close> on an optional string and on an optional number.\<close>

definition str_or :: "string option \<Rightarrow> string \<Rightarrow> string" where
  "str_or x d = (case x of None \<Rightarrow> d | Some s \<Rightarrow> if s = [] then d else s)"

definition num_or :: "int option \<Rightarrow> int \<Rightarrow> int" where
  "num_or x d = (case x of None \<Rightarrow> d | Some n \<Rightarrow> if n = 0 then d else n)"

section \<open>Joining and the subscription effect\<close>

text \<open>\<^verbatim>\<open>joinLobby\<close> (lines 47-56).\<close>

definition joinLobby :: "env \<Rightarrow> world \<Rightarrow> world" where
  "joinLobby e w =
     (if socket e = None \<or> playerName e = [] \<or> lobbyId e = [] then w
      else perform [ConsoleLog ''Joining lobby with:'',
                    Emit (JoinLobby (lobbyId e) (playerName e) (isHost e))] w)"

definition lobby_listeners :: "listener list" where
  "lobby_listeners =
     [\<lparr>l_event = EvLobbyUpdate, l_once = False, l_handler = LobbyUpdateHandler\<rparr>,
      \<lparr>l_event = EvGameStart, l_once = False, l_handler = GameStartHandler\<rparr>,
      \<lparr>l_event = EvError, l_once = False, l_handler = ErrorHandler\<rparr>]"

text \<open>The body of the \<^verbatim>\<open>useEffect\<close> (lines 59-86) and its cleanup (lines 87-91);
  \<^verbatim>\<open>socket.off(name)\<close> removes every listener of that event.\<close>

definition lobbyEffect :: "env \<Rightarrow> world \<Rightarrow> world" where
  "lobbyEffect e w =
     (case socket e of
        None \<Rightarrow> w
      | Some s \<Rightarrow>
          (let w1 = (if \<not> connected s then joinLobby e w else w)
           in w1\<lparr>listeners := listeners w1 @ lobby_listeners\<rparr>))"

definition lobbyCleanup :: "world \<Rightarrow> world" where
  "lobbyCleanup w =
     w\<lparr>listeners :=
         filter (\<lambda>l. l_event l \<noteq> EvLobbyUpdate \<and> l_event l \<noteq> EvGameStart \<and> l_event l \<noteq> EvError)
           (listeners w)\<rparr>"

section \<open>Event handlers and dispatch\<close>

text \<open>The \<^verbatim>\<open>lobbyUpdate\<close> callback (lines 68-74).\<close>

definition onLobbyUpdate :: "lobby \<Rightarrow> world \<Rightarrow> world" where
  "onLobbyUpdate l w =
     (let w1 = perform [ConsoleLog ''Received lobby update:''] w;
          w2 = w1\<lparr>state := (state w1)\<lparr>players := lobby_players l\<rparr>\<rparr>
      in case spotifyPlaylist l of
           None \<Rightarrow> w2
         | Some p \<Rightarrow> w2\<lparr>state := (state w2)\<lparr>selectedPlaylist := Some p\<rparr>\<rparr>)"

text \<open>The \<^verbatim>\<open>gameStart\<close> callback (lines 77-79).\<close>

definition onGameStart :: "env \<Rightarrow> string \<Rightarrow> world \<Rightarrow> world" where
  "onGameStart e pid w = perform [Push (''/game/'' @ lobbyId e @ ''?playlist='' @ pid)] w"

text \<open>The persistent \<^verbatim>\<open>error\<close> callback (lines 82-85).\<close>

definition onError :: "string \<Rightarrow> world \<Rightarrow> world" where
  "onError message w = perform [Alert message, Push ''/''] w"

text \<open>The one-time callbacks registered by \<^verbatim>\<open>handleStartGame\<close> (lines 167-177).\<close>

definition onStartAck :: "env \<Rightarrow> Playlist \<Rightarrow> string \<Rightarrow> world \<Rightarrow> world" where
  "onStartAck e pl tok w =
     perform [ConsoleLog ''Game started successfully:'',
              Push (''/game/'' @ lobbyId e @ ''?playlist='' @ pl_id pl @ ''&spotify_token='' @ tok)] w"

definition onStartError :: "world \<Rightarrow> world" where
  "onStartError w =
     (let w1 = perform [ConsoleError ''Error starting game:'',
                        Alert ''Failed to start game. Please try again.''] w
      in w1\<lparr>state := (state w1)\<lparr>isStarting := False\<rparr>\<rparr>)"

fun run_handler :: "env \<Rightarrow> handler \<Rightarrow> server_event \<Rightarrow> world \<Rightarrow> world" where
  "run_handler e LobbyUpdateHandler (LobbyUpdate l) w = onLobbyUpdate l w"
| "run_handler e GameStartHandler (GameStart pid) w = onGameStart e pid w"
| "run_handler e ErrorHandler (ErrorEv m) w = onError m w"
| "run_handler e (StartAckHandler pl tok) GameStateUpdate w = onStartAck e pl tok w"
| "run_handler e StartErrorHandler (ErrorEv m) w = onStartError w"
| "run_handler e _ _ w = w"

text \<open>
  The emitter calls the listeners registered for the event's name in registration
  order, over a copy of the list taken when the event arrives; a \<^verbatim>\<open>once\<close> listener
  unregisters itself just before its callback runs.
\<close>

definition deliver :: "env \<Rightarrow> server_event \<Rightarrow> world \<Rightarrow> listener \<Rightarrow> world" where
  "deliver e ev w l =
     run_handler e (l_handler l) ev
       (if l_once l then w\<lparr>listeners := remove1 l (listeners w)\<rparr> else w)"

definition dispatch :: "env \<Rightarrow> server_event \<Rightarrow> world \<Rightarrow> world" where
  "dispatch e ev w =
     foldl (deliver e ev) w (filter (\<lambda>l. l_event l = event_name_of ev) (listeners w))"

text \<open>Timers: the callback of \<^verbatim>\<open>setTimeout\<close> in \<^verbatim>\<open>handleStartGame\<close> (lines 180-186)
  tests the \<^verbatim>\<open>isStarting\<close> it captured.\<close>

fun run_timer :: "timer_callback \<Rightarrow> world \<Rightarrow> world" where
  "run_timer (StartTimeout captured_isStarting) w =
     (if captured_isStarting then
        (let w1 = perform [ConsoleError ''Game start timeout'',
                           Alert ''Game start timed out. Please try again.''] w
         in w1\<lparr>state := (state w1)\<lparr>isStarting := False\<rparr>\<rparr>)
      else w)"

text \<open>All pending timers expire, in order, and are gone.\<close>

definition expire_timers :: "world \<Rightarrow> world" where
  "expire_timers w = foldl (\<lambda>w' t. run_timer (snd t) w') (w\<lparr>timers := []\<rparr>) (timers w)"

definition receive_all :: "env \<Rightarrow> server_event list \<Rightarrow> world \<Rightarrow> world" where
  "receive_all e evs w = foldl (\<lambda>w' ev. dispatch e ev w') w evs"

section \<open>The catalog response\<close>

text \<open>The items of the catalog response, \<^verbatim>\<open>{id, name, tracks: {total}, images: [{url}]}\<close>;
  a field that may be missing is an option, and an item may be null.\<close>

record raw_tracks =
  tracks_total :: "int option"

record raw_image =
  url :: "string option"

record raw_item =
  item_id :: string
  item_name :: "string option"
  item_tracks :: "raw_tracks option"
  item_images :: "raw_image list option"

text \<open>The \<^verbatim>\<open>filter\<close> callback, \<^verbatim>\<open>item && item.tracks\<close>.\<close>

definition has_tracks :: "raw_item option \<Rightarrow> bool" where
  "has_tracks x = (case x of None \<Rightarrow> False | Some i \<Rightarrow> item_tracks i \<noteq> None)"

text \<open>\<^verbatim>\<open>item.images?.[0]?.url\<close>\<close>

definition first_image_url :: "raw_item \<Rightarrow> string option" where
  "first_image_url i =
     (case item_images i of
        None \<Rightarrow> None
      | Some [] \<Rightarrow> None
      | Some (im # _) \<Rightarrow> url im)"

text \<open>The \<^verbatim>\<open>map\<close> callback (lines 114-119). Reading \<^verbatim>\<open>item.tracks.total\<close> of a null
  item or of an item without \<^verbatim>\<open>tracks\<close> throws a TypeError: \<open>None\<close>.\<close>

definition format_item :: "raw_item option \<Rightarrow> Playlist option" where
  "format_item x =
     (case x of
        None \<Rightarrow> None
      | Some i \<Rightarrow>
          (case item_tracks i of
             None \<Rightarrow> None
           | Some t \<Rightarrow>
               Some \<lparr>pl_id = item_id i,
                     pl_name = str_or (item_name i) ''Unnamed Playlist'',
                     pl_tracks = num_or (tracks_total t) 0,
                     pl_imageUrl =
                       (if truthy (first_image_url i) then first_image_url i else None)\<rparr>))"

text \<open>\<^verbatim>\<open>data.items.filter(...).map(...)\<close> (lines 112-119); \<open>None\<close> when a callback
  throws.\<close>

definition formattedPlaylists :: "raw_item option list \<Rightarrow> Playlist list option" where
  "formattedPlaylists items = those (map format_item (filter has_tracks items))"

datatype fetch_result =
    NetworkFailure
  | Response bool nat "raw_item option list"  \<comment> \<open>\<^verbatim>\<open>ok\<close>, \<^verbatim>\<open>status\<close>, \<^verbatim>\<open>items\<close> of the body\<close>

section \<open>User actions\<close>

text \<open>\<^verbatim>\<open>handleSpotifyAuth\<close> (lines 95-127), given what the \<^verbatim>\<open>fetch\<close> came back
  with. The token is stored before the request is made.\<close>

definition handleSpotifyAuth :: "string \<Rightarrow> fetch_result \<Rightarrow> world \<Rightarrow> world" where
  "handleSpotifyAuth token res w =
     (let w1 = w\<lparr>state := (state w)\<lparr>spotifyToken := Some token\<rparr>\<rparr>;
          failed = perform [ConsoleError ''Error fetching playlists:'',
                            Alert ''Failed to load playlists. Please try again.''] w1
      in case res of
           NetworkFailure \<Rightarrow> failed
         | Response ok status items \<Rightarrow>
             (if \<not> ok then failed
              else case formattedPlaylists items of
                     None \<Rightarrow> failed
                   | Some ps \<Rightarrow>
                       w1\<lparr>state := (state w1)\<lparr>playlists := ps, showPlaylistDialog := True\<rparr>\<rparr>))"


text \<open>
  \<^verbatim>\<open>handleStartGame\<close> (lines 142-193). A handler is a closure of the render that
  created it: it reads the state constants of that render, \<open>r\<close>, and writes the
  current state through the setters. Nothing in the \<^verbatim>\<open>try\<close> block throws, so
  the \<^verbatim>\<open>catch\<close> branch has no counterpart here.
\<close>

definition handleStartGame :: "env \<Rightarrow> lobby_state \<Rightarrow> world \<Rightarrow> world" where
  "handleStartGame e r w =
     (case (socket e, selectedPlaylist r, spotifyToken r) of
        (Some s, Some pl, Some tok) \<Rightarrow>
          (if tok = [] then perform [ConsoleError ''Missing required data:''] w
           else
             (let w1 = w\<lparr>state := (state w)\<lparr>isStarting := True\<rparr>\<rparr>;
                  w2 = perform [ConsoleLog ''Starting game with:'',
                                Emit (StartGame (lobbyId e) tok)] w1;
                  w3 = w2\<lparr>listeners := listeners w2 @
                            [\<lparr>l_event = EvGameStateUpdate, l_once = True,
                              l_handler = StartAckHandler pl tok\<rparr>,
                             \<lparr>l_event = EvError, l_once = True,
                              l_handler = StartErrorHandler\<rparr>]\<rparr>
              in w3\<lparr>timers := timers w3 @ [(5000, StartTimeout (isStarting r))]\<rparr>))
      | _ \<Rightarrow> perform [ConsoleError ''Missing required data:''] w)"

text \<open>\<^verbatim>\<open>handleReady\<close> (lines 195-199).\<close>

definition handleReady :: "env \<Rightarrow> lobby_state \<Rightarrow> world \<Rightarrow> world" where
  "handleReady e r w =
     (if socket e = None then w
      else (let w1 = perform [Emit (ToggleReady (lobbyId e))] w
            in w1\<lparr>state := (state w1)\<lparr>isReady := \<not> isReady r\<rparr>\<rparr>))"

section \<open>The rendered controls\<close>

text \<open>\<^verbatim>\<open>players.filter(p => !p.isHost).every(p => p.isReady)\<close>\<close>

definition nonHostsReady :: "lobby_state \<Rightarrow> bool" where
  "nonHostsReady r = list_all p_isReady (filter (\<lambda>p. \<not> p_isHost p) (players r))"

text \<open>The \<^verbatim>\<open>disabled\<close> attribute of the start button (lines 264-269).\<close>

definition startDisabled :: "lobby_state \<Rightarrow> bool" where
  "startDisabled r =
     (selectedPlaylist r = None \<or> \<not> truthy (spotifyToken r) \<or> \<not> nonHostsReady r \<or> isStarting r)"

text \<open>
  A click runs the handler of the last render, whose constants are the current
  state. The start button is rendered under \<^verbatim>\<open>isHost\<close> and a truthy
  \<^verbatim>\<open>spotifyToken\<close> (lines 223-262) and a disabled button gives no click; the ready
  button is rendered under \<^verbatim>\<open>!isHost\<close> (line 314).
\<close>

definition clickStartGame :: "env \<Rightarrow> world \<Rightarrow> world" where
  "clickStartGame e w =
     (if isHost e \<and> truthy (spotifyToken (state w)) \<and> \<not> startDisabled (state w)
      then handleStartGame e (state w) w else w)"


section \<open>Predicates of the statements\<close>

text \<open>The listeners of event \<open>ev\<close> are exactly the persistent one with handler \<open>h\<close>.\<close>

definition only_listener :: "event_name \<Rightarrow> handler \<Rightarrow> world \<Rightarrow> bool" where
  "only_listener ev h w =
     (filter (\<lambda>l. l_event l = ev) (listeners w) =
        [\<lparr>l_event = ev, l_once = False, l_handler = h\<rparr>])"

text \<open>The enabling condition as the specification words it: a token that is not null
  counts as a credential.\<close>

definition start_enabled_as_specified :: "lobby_state \<Rightarrow> bool" where
  "start_enabled_as_specified r =
     (selectedPlaylist r \<noteq> None \<and> spotifyToken r \<noteq> None \<and>
      list_all (\<lambda>p. p_isHost p = False \<longrightarrow> p_isReady p = True) (players r) \<and>
      \<not> isStarting r)"

section \<open>Sample values\<close>

definition initial_state :: lobby_state where
  "initial_state =
     \<lparr>players = [], isReady = False, spotifyToken = None, playlists = [],
      selectedPlaylist = None, showPlaylistDialog = False, isStarting = False\<rparr>"

definition ada_env :: env where
  "ada_env =
     \<lparr>socket = Some \<lparr>connected = False, socket_id = ''s1''\<rparr>,
      lobbyId = ''ABCD'', playerName = ''Ada'', isHost = True\<rparr>"

definition ada :: Player where
  "ada = \<lparr>p_id = ''s1'', p_name = ''Ada'', p_isReady = False, p_isHost = True\<rparr>"

definition bob :: Player where
  "bob = \<lparr>p_id = ''s2'', p_name = ''Bob'', p_isReady = True, p_isHost = False\<rparr>"

definition mix :: Playlist where
  "mix = \<lparr>pl_id = ''p1'', pl_name = ''Mix'', pl_tracks = 12, pl_imageUrl = None\<rparr>"

text \<open>A host's lobby after mounting, authenticating and selecting, every guest ready.\<close>

definition ready_state :: lobby_state where
  "ready_state =
     initial_state\<lparr>players := [ada, bob], spotifyToken := Some ''tok'',
                   selectedPlaylist := Some mix\<rparr>"

definition ready_world :: world where
  "ready_world =
     \<lparr>state = ready_state, effects = [], listeners = lobby_listeners, timers = []\<rparr>"

text \<open>The same lobby with a guest who is not ready.\<close>

definition unready_world :: world where
  "unready_world =
     ready_world\<lparr>state := ready_state\<lparr>players := [ada, bob\<lparr>p_isReady := False\<rparr>]\<rparr>\<rparr>"

text \<open>The same lobby after \<^verbatim>\<open>handleSpotifyAuth\<close> was given the empty string.\<close>

definition empty_token_state :: lobby_state where
  "empty_token_state = ready_state\<lparr>spotifyToken := Some ''''\<rparr>"

definition item_a :: raw_item where
  "item_a = \<lparr>item_id = ''a'', item_name = Some ''Road'', item_tracks = Some \<lparr>tracks_total = Some 3\<rparr>,
             item_images = Some [\<lparr>url = Some ''http://img/a''\<rparr>]\<rparr>"

definition item_b :: raw_item where
  "item_b = \<lparr>item_id = ''b'', item_name = Some ''Gym'', item_tracks = None, item_images = None\<rparr>"

definition item_c :: raw_item where
  "item_c = \<lparr>item_id = ''c'', item_name = None, item_tracks = Some \<lparr>tracks_total = None\<rparr>,
             item_images = None\<rparr>"

section \<open>The page over time\<close>

text \<open>A page that has just been mounted: the initial values of the \<^verbatim>\<open>useState\<close> cells,
  nothing done yet, no listener, no timer.\<close>

definition fresh_world :: world where
  "fresh_world = \<lparr>state = initial_state, effects = [], listeners = [], timers = []\<rparr>"

text \<open>Before the effect runs again, the cleanup returned by its last run is called; a
  run that left at \<^verbatim>\<open>if (!socket) return\<close> returned none.\<close>

definition cleanup_of :: "env \<Rightarrow> world \<Rightarrow> world" where
  "cleanup_of e w = (if socket e = None then w else lobbyCleanup w)"

text \<open>
  The runs of the effect during one mount: the first with the values \<open>e\<close>, then one more
  for each element of the list (a dependency of the effect changed, or the component
  was set up twice as a development build does), each after the cleanup of the run
  before it. The \<open>connected\<close> flag of an element is the flag as that run reads it.
\<close>

fun effect_runs :: "env \<Rightarrow> env list \<Rightarrow> world \<Rightarrow> world" where
  "effect_runs e [] w = lobbyEffect e w"
| "effect_runs e (e' # es) w = effect_runs e' es (cleanup_of e (lobbyEffect e w))"







section \<open>Basic facts\<close>

lemma perform_fields [simp]:
  "state (perform es w) = state w"
  "effects (perform es w) = effects w @ es"
  "listeners (perform es w) = listeners w"
  "timers (perform es w) = timers w"
  by (simp_all add: perform_def)

lemma nonHostsReady_iff:
  "nonHostsReady r = (\<forall>p \<in> set (players r). \<not> p_isHost p \<longrightarrow> p_isReady p)"
  by (auto simp: nonHostsReady_def list_all_iff)

lemma handleSpotifyAuth_token:
  "spotifyToken (state (handleSpotifyAuth token res w)) = Some token"
  by (simp add: handleSpotifyAuth_def Let_def split: fetch_result.splits option.splits)

section \<open>The start control\<close>

text \<open>
  C1, as the code has it. The start control is disabled exactly when the following
  conjunction fails: a playlist is selected, the token is a non-empty string, every
  player with \<open>isHost = false\<close> has \<open>isReady = true\<close>, and no start is in flight.
  The token test is JavaScript truthiness, so a token that is the empty string counts
  as no credential.
\<close>

theorem start_control_enabled_iff:
  "startDisabled r =
     (\<not> (selectedPlaylist r \<noteq> None \<and>
         (\<exists>tok. spotifyToken r = Some tok \<and> tok \<noteq> []) \<and>
         (\<forall>p \<in> set (players r). p_isHost p = False \<longrightarrow> p_isReady p = True) \<and>
         isStarting r = False))"
  by (auto simp: startDisabled_def truthy_def nonHostsReady_iff split: option.splits)

theorem start_control_enabled_iff_witness:
  "\<not> startDisabled ready_state \<and> startDisabled empty_token_state \<and>
   startDisabled (state unready_world)"
  unfolding start_control_enabled_iff
  by (simp add: ready_state_def empty_token_state_def unready_world_def ready_world_def
      initial_state_def ada_def bob_def)

text \<open>
  C1 as worded, with "a credential is present" read as "the token is not null", fails
  at the state whose token is the empty string: all four conditions of the wording
  hold there and the control is disabled. \<open>handleSpotifyAuth\<close> stores whatever string
  it is given (\<open>handleSpotifyAuth_token\<close>).
\<close>

theorem start_control_nonnull_token_counterexample:
  "start_enabled_as_specified empty_token_state \<and> startDisabled empty_token_state"
  by (simp add: start_enabled_as_specified_def startDisabled_def truthy_def
      empty_token_state_def ready_state_def initial_state_def ada_def bob_def)

section \<open>Toggling readiness\<close>

text \<open>
  C6. While the socket exists, one call of \<open>handleReady\<close> from the current render
  appends exactly one effect, the \<open>toggleReady\<close> emit carrying the lobby id, and
  negates \<open>isReady\<close>; nothing else of the state, the listeners or the timers changes.
  The world \<open>w\<close> is arbitrary, so neither count depends on what the network has
  delivered or will deliver.
\<close>

theorem handleReady_emits_once_flips_once:
  "socket e \<noteq> None \<Longrightarrow>
     effects (handleReady e (state w) w) = effects w @ [Emit (ToggleReady (lobbyId e))] \<and>
     emitted (handleReady e (state w) w) = emitted w @ [ToggleReady (lobbyId e)] \<and>
     state (handleReady e (state w) w) = (state w)\<lparr>isReady := \<not> isReady (state w)\<rparr> \<and>
     isReady (state (handleReady e r w)) = (\<not> isReady r) \<and>
     listeners (handleReady e (state w) w) = listeners w \<and>
     timers (handleReady e (state w) w) = timers w"
  by (auto simp: handleReady_def Let_def emitted_def)

theorem handleReady_emits_once_flips_once_witness:
  "socket ada_env \<noteq> None \<and>
   emitted (handleReady ada_env (state ready_world) ready_world) = [ToggleReady ''ABCD''] \<and>
   isReady (state (handleReady ada_env (state ready_world) ready_world))"
  using handleReady_emits_once_flips_once [of ada_env ready_world]
  by (simp add: ada_env_def ready_world_def ready_state_def initial_state_def emitted_def)

section \<open>Joining\<close>

lemma lobbyEffect_emitted:
  "emitted (lobbyEffect e w) =
     emitted w @
       (case socket e of
          None \<Rightarrow> []
        | Some s \<Rightarrow>
            if connected s \<or> playerName e = [] \<or> lobbyId e = [] then []
            else [JoinLobby (lobbyId e) (playerName e) (isHost e)])"
  by (auto simp: lobbyEffect_def joinLobby_def Let_def emitted_def split: option.splits)

lemma cleanup_of_emitted: "emitted (cleanup_of e w) = emitted w"
  by (simp add: cleanup_of_def lobbyCleanup_def emitted_def)

lemma effect_runs_emitted:
  "emitted (effect_runs e es w) =
     emitted w @
       concat (map (\<lambda>e'. case socket e' of
                            None \<Rightarrow> []
                          | Some s' \<Rightarrow>
                              if connected s' \<or> playerName e' = [] \<or> lobbyId e' = [] then []
                              else [JoinLobby (lobbyId e') (playerName e') (isHost e')])
                 (e # es))"
proof (induction es arbitrary: e w)
  case Nil
  show ?case by (simp add: lobbyEffect_emitted)
next
  case (Cons e' es)
  show ?case
    by (simp add: Cons.IH cleanup_of_emitted lobbyEffect_emitted)
qed

text \<open>
  C8, as the code has it. A run of the subscription effect with a socket, a non-empty
  player name and a non-empty lobby id emits \<open>joinLobby {lobbyId, playerName, isHost}\<close>
  exactly once when the socket is not connected at that run and nothing when it is; a
  cleanup emits nothing. The guard is the connection flag and nothing records a join
  that was sent: over the runs of the effect during one mount, one join is emitted for
  each run that finds a socket that is not connected (and a name and a lobby id), and
  none for the others.
\<close>

theorem join_emitted_once_per_effect_run:
  "(socket e = Some s \<and> playerName e \<noteq> [] \<and> lobbyId e \<noteq> [] \<longrightarrow>
      emitted (lobbyEffect e w) =
        emitted w @
          (if connected s then [] else [JoinLobby (lobbyId e) (playerName e) (isHost e)])) \<and>
   emitted (cleanup_of e w) = emitted w \<and>
   emitted (effect_runs e es w) =
     emitted w @
       concat (map (\<lambda>e'. case socket e' of
                            None \<Rightarrow> []
                          | Some s' \<Rightarrow>
                              if connected s' \<or> playerName e' = [] \<or> lobbyId e' = [] then []
                              else [JoinLobby (lobbyId e') (playerName e') (isHost e')])
                 (e # es))"
  by (simp add: lobbyEffect_emitted cleanup_of_emitted effect_runs_emitted)

theorem join_emitted_once_per_effect_run_witness:
  "emitted (lobbyEffect ada_env fresh_world) = [JoinLobby ''ABCD'' ''Ada'' True] \<and>
   emitted (lobbyEffect (ada_env\<lparr>socket := Some \<lparr>connected = True, socket_id = ''s1''\<rparr>\<rparr>)
       fresh_world) = [] \<and>
   emitted (effect_runs (ada_env\<lparr>socket := None\<rparr>)
       [ada_env, ada_env\<lparr>socket := Some \<lparr>connected = True, socket_id = ''s1''\<rparr>\<rparr>] fresh_world)
     = [JoinLobby ''ABCD'' ''Ada'' True]"
proof -
  have f: "emitted fresh_world = []" by (simp add: fresh_world_def emitted_def)
  show ?thesis
    using join_emitted_once_per_effect_run
            [of ada_env "\<lparr>connected = False, socket_id = ''s1''\<rparr>" fresh_world "[]"]
          join_emitted_once_per_effect_run
            [of "ada_env\<lparr>socket := Some \<lparr>connected = True, socket_id = ''s1''\<rparr>\<rparr>"
                "\<lparr>connected = True, socket_id = ''s1''\<rparr>" fresh_world "[]"]
          join_emitted_once_per_effect_run
            [of "ada_env\<lparr>socket := None\<rparr>" "\<lparr>connected = False, socket_id = ''s1''\<rparr>" fresh_world
                "[ada_env, ada_env\<lparr>socket := Some \<lparr>connected = True, socket_id = ''s1''\<rparr>\<rparr>]"]
    by (simp add: f ada_env_def)
qed

text \<open>
  C8 as worded, counting per mount, fails: when the effect of one mount runs, is
  cleaned up and runs again while the socket is still not connected, \<open>joinLobby\<close> is
  emitted twice.
\<close>

theorem join_twice_in_one_mount_counterexample:
  "socket ada_env = Some \<lparr>connected = False, socket_id = ''s1''\<rparr> \<and>
   playerName ada_env = ''Ada'' \<and> lobbyId ada_env = ''ABCD'' \<and>
   emitted (effect_runs ada_env [ada_env] fresh_world)
     = [JoinLobby ''ABCD'' ''Ada'' True, JoinLobby ''ABCD'' ''Ada'' True]"
  by (simp add: ada_env_def fresh_world_def lobbyEffect_def joinLobby_def cleanup_of_def
      lobbyCleanup_def Let_def emitted_def perform_def)

section \<open>Events never emit; persistent listeners stay\<close>

lemma run_handler_listeners [simp]: "listeners (run_handler e h ev w) = listeners w"
  by (cases "(e, h, ev, w)" rule: run_handler.cases)
     (simp_all add: onLobbyUpdate_def onGameStart_def onError_def onStartAck_def
        onStartError_def Let_def split: option.splits)

lemma run_handler_timers [simp]: "timers (run_handler e h ev w) = timers w"
  by (cases "(e, h, ev, w)" rule: run_handler.cases)
     (simp_all add: onLobbyUpdate_def onGameStart_def onError_def onStartAck_def
        onStartError_def Let_def split: option.splits)

lemma run_handler_emitted [simp]: "emitted (run_handler e h ev w) = emitted w"
  by (cases "(e, h, ev, w)" rule: run_handler.cases)
     (simp_all add: onLobbyUpdate_def onGameStart_def onError_def onStartAck_def
        onStartError_def Let_def emitted_def split: option.splits)

lemma run_handler_extends: "\<exists>es. effects (run_handler e h ev w) = effects w @ es"
  by (cases "(e, h, ev, w)" rule: run_handler.cases)
     (simp_all add: onLobbyUpdate_def onGameStart_def onError_def onStartAck_def
        onStartError_def Let_def split: option.splits)

lemma deliver_emitted [simp]: "emitted (deliver e ev w l) = emitted w"
  by (simp add: deliver_def emitted_def[of "w\<lparr>listeners := _\<rparr>"] emitted_def[of w])

lemma deliver_extends: "\<exists>es. effects (deliver e ev w l) = effects w @ es"
  using run_handler_extends [of e "l_handler l" ev "if l_once l then w\<lparr>listeners := remove1 l (listeners w)\<rparr> else w"]
  by (auto simp: deliver_def split: if_splits)

lemma deliver_keeps_persistent:
  "x \<in> set (listeners w) \<Longrightarrow> \<not> l_once x \<Longrightarrow> x \<in> set (listeners (deliver e ev w l))"
  by (cases "x = l") (auto simp: deliver_def)

lemma foldl_deliver_emitted [simp]: "emitted (foldl (deliver e ev) w ls) = emitted w"
  by (induction ls arbitrary: w) simp_all

lemma foldl_deliver_extends: "\<exists>es. effects (foldl (deliver e ev) w ls) = effects w @ es"
proof (induction ls arbitrary: w)
  case Nil
  show ?case by simp
next
  case (Cons l ls)
  obtain es0 where a: "effects (deliver e ev w l) = effects w @ es0"
    using deliver_extends by blast
  obtain es1 where "effects (foldl (deliver e ev) (deliver e ev w l) ls) = effects (deliver e ev w l) @ es1"
    using Cons.IH by blast
  with a show ?case by simp
qed

lemma foldl_deliver_keeps_persistent:
  "x \<in> set (listeners w) \<Longrightarrow> \<not> l_once x \<Longrightarrow> x \<in> set (listeners (foldl (deliver e ev) w ls))"
  by (induction ls arbitrary: w) (simp_all add: deliver_keeps_persistent)

lemma dispatch_emitted [simp]: "emitted (dispatch e ev w) = emitted w"
  by (simp add: dispatch_def)

lemma deliver_persistent_error:
  "effects (deliver e (ErrorEv m) w \<lparr>l_event = EvError, l_once = False, l_handler = ErrorHandler\<rparr>)
     = effects w @ [Alert m, Push ''/'']"
  by (simp add: deliver_def onError_def)

lemma foldl_deliver_error_fatal:
  "\<lparr>l_event = EvError, l_once = False, l_handler = ErrorHandler\<rparr> \<in> set ls \<Longrightarrow>
   \<exists>pre post. effects (foldl (deliver e (ErrorEv m)) w ls)
      = effects w @ pre @ [Alert m, Push ''/''] @ post"
proof (induction ls arbitrary: w)
  case Nil
  then show ?case by simp
next
  case (Cons l ls)
  show ?case
  proof (cases "l = \<lparr>l_event = EvError, l_once = False, l_handler = ErrorHandler\<rparr>")
    case True
    obtain es where "effects (foldl (deliver e (ErrorEv m)) (deliver e (ErrorEv m) w l) ls)
        = effects (deliver e (ErrorEv m) w l) @ es"
      using foldl_deliver_extends by blast
    with True have "effects (foldl (deliver e (ErrorEv m)) w (l # ls))
        = effects w @ [] @ [Alert m, Push ''/''] @ es"
      by (simp add: deliver_persistent_error)
    then show ?thesis by blast
  next
    case False
    with Cons.prems have "\<lparr>l_event = EvError, l_once = False, l_handler = ErrorHandler\<rparr> \<in> set ls"
      by simp
    from Cons.IH [OF this, of "deliver e (ErrorEv m) w l"]
    obtain pre post where b: "effects (foldl (deliver e (ErrorEv m)) (deliver e (ErrorEv m) w l) ls)
        = effects (deliver e (ErrorEv m) w l) @ pre @ [Alert m, Push ''/''] @ post"
      by blast
    obtain es0 where "effects (deliver e (ErrorEv m) w l) = effects w @ es0"
      using deliver_extends by blast
    with b have "effects (foldl (deliver e (ErrorEv m)) w (l # ls))
        = effects w @ (es0 @ pre) @ [Alert m, Push ''/''] @ post"
      by simp
    then show ?thesis by blast
  qed
qed

section \<open>The persistent error subscription\<close>

text \<open>
  C9. Whenever the persistent \<open>error\<close> listener of the subscription effect is
  registered, an \<open>error\<close> event with message \<open>m\<close> makes the page alert \<open>m\<close> and then
  push the route \<open>/\<close>, whatever else is subscribed and whatever the state; the event
  causes no emit (no retry), and the listener stays registered. When it is the only
  \<open>error\<close> listener these two effects are all that happens.
\<close>

theorem error_event_is_fatal:
  "\<lparr>l_event = EvError, l_once = False, l_handler = ErrorHandler\<rparr> \<in> set (listeners w) \<Longrightarrow>
     (\<exists>pre post. effects (dispatch e (ErrorEv m) w) = effects w @ pre @ [Alert m, Push ''/''] @ post) \<and>
     emitted (dispatch e (ErrorEv m) w) = emitted w \<and>
     \<lparr>l_event = EvError, l_once = False, l_handler = ErrorHandler\<rparr> \<in> set (listeners (dispatch e (ErrorEv m) w)) \<and>
     (only_listener EvError ErrorHandler w \<longrightarrow>
        effects (dispatch e (ErrorEv m) w) = effects w @ [Alert m, Push ''/''])"
proof (intro conjI impI)
  assume a: "\<lparr>l_event = EvError, l_once = False, l_handler = ErrorHandler\<rparr> \<in> set (listeners w)"
  then have "\<lparr>l_event = EvError, l_once = False, l_handler = ErrorHandler\<rparr>
      \<in> set (filter (\<lambda>l. l_event l = event_name_of (ErrorEv m)) (listeners w))"
    by simp
  then show "\<exists>pre post. effects (dispatch e (ErrorEv m) w) = effects w @ pre @ [Alert m, Push ''/''] @ post"
    unfolding dispatch_def by (rule foldl_deliver_error_fatal)
  show "emitted (dispatch e (ErrorEv m) w) = emitted w" by simp
  from a show "\<lparr>l_event = EvError, l_once = False, l_handler = ErrorHandler\<rparr> \<in> set (listeners (dispatch e (ErrorEv m) w))"
    unfolding dispatch_def by (simp add: foldl_deliver_keeps_persistent)
next
  assume "only_listener EvError ErrorHandler w"
  then show "effects (dispatch e (ErrorEv m) w) = effects w @ [Alert m, Push ''/'']"
    by (simp add: dispatch_def only_listener_def deliver_persistent_error)
qed

theorem error_event_is_fatal_witness:
  "effects (dispatch ada_env (ErrorEv ''Lobby not found'') ready_world)
     = [Alert ''Lobby not found'', Push ''/''] \<and>
   emitted (dispatch ada_env (ErrorEv ''Lobby not found'') ready_world) = []"
  using error_event_is_fatal [of ready_world ada_env "''Lobby not found''"]
  by (simp add: ready_world_def lobby_listeners_def only_listener_def emitted_def)

section \<open>Lobby snapshots\<close>

lemma dispatch_lobbyUpdate:
  "only_listener EvLobbyUpdate LobbyUpdateHandler w \<Longrightarrow>
   dispatch e (LobbyUpdate l) w = onLobbyUpdate l w"
  by (simp add: dispatch_def only_listener_def deliver_def)

lemma onLobbyUpdate_fields:
  "players (state (onLobbyUpdate l w)) = lobby_players l"
  "selectedPlaylist (state (onLobbyUpdate l w)) =
     (case spotifyPlaylist l of None \<Rightarrow> selectedPlaylist (state w) | Some p \<Rightarrow> Some p)"
  "listeners (onLobbyUpdate l w) = listeners w"
  by (simp_all add: onLobbyUpdate_def Let_def split: option.splits)

lemma onLobbyUpdate_only_listener:
  "only_listener ev h (onLobbyUpdate l w) = only_listener ev h w"
  by (simp add: only_listener_def onLobbyUpdate_fields)

lemma receive_all_snoc:
  "receive_all e (evs @ [ev]) w = dispatch e ev (receive_all e evs w)"
  by (simp add: receive_all_def)

lemma receive_lobbyUpdates_only_listener:
  "only_listener EvLobbyUpdate LobbyUpdateHandler w \<Longrightarrow>
   only_listener EvLobbyUpdate LobbyUpdateHandler (receive_all e (map LobbyUpdate snaps) w)"
proof (induction snaps rule: rev_induct)
  case Nil
  then show ?case by (simp add: receive_all_def)
next
  case (snoc l snaps)
  then show ?case
    by (simp add: receive_all_snoc dispatch_lobbyUpdate onLobbyUpdate_only_listener)
qed

text \<open>
  C4. With the \<open>lobbyUpdate\<close> listener of the subscription effect registered, after
  any non-empty sequence of \<open>lobbyUpdate\<close> events the \<open>players\<close> state is exactly the
  \<open>players\<close> field of the last snapshot received: each snapshot replaces the list,
  nothing of an earlier one is kept.
\<close>

theorem players_are_last_snapshot:
  assumes "only_listener EvLobbyUpdate LobbyUpdateHandler w" and "snaps \<noteq> []"
  shows "players (state (receive_all e (map LobbyUpdate snaps) w)) = lobby_players (last snaps)"
proof -
  from assms(2) obtain front l where s: "snaps = front @ [l]"
    by (metis append_butlast_last_id)
  have "only_listener EvLobbyUpdate LobbyUpdateHandler (receive_all e (map LobbyUpdate front) w)"
    using assms(1) by (rule receive_lobbyUpdates_only_listener)
  then show ?thesis
    by (simp add: s receive_all_snoc dispatch_lobbyUpdate onLobbyUpdate_fields)
qed

theorem players_are_last_snapshot_witness:
  "players (state (receive_all ada_env
      [LobbyUpdate \<lparr>lobby_players = [ada, bob], spotifyPlaylist = None\<rparr>,
       LobbyUpdate \<lparr>lobby_players = [ada], spotifyPlaylist = Some mix\<rparr>] ready_world)) = [ada]"
proof -
  have "only_listener EvLobbyUpdate LobbyUpdateHandler ready_world"
    by (simp add: only_listener_def ready_world_def lobby_listeners_def)
  from players_are_last_snapshot [OF this,
      of "[\<lparr>lobby_players = [ada, bob], spotifyPlaylist = None\<rparr>,
           \<lparr>lobby_players = [ada], spotifyPlaylist = Some mix\<rparr>]" ada_env]
  show ?thesis by simp
qed

text \<open>
  C5. Processing one \<open>lobbyUpdate\<close> snapshot leaves \<open>selectedPlaylist\<close> as it was when
  the snapshot carries no \<open>spotifyPlaylist\<close>, and overwrites it with the snapshot's
  playlist when it carries one.
\<close>

theorem lobbyUpdate_selectedPlaylist:
  "only_listener EvLobbyUpdate LobbyUpdateHandler w \<Longrightarrow>
     selectedPlaylist (state (dispatch e (LobbyUpdate l) w)) =
       (case spotifyPlaylist l of None \<Rightarrow> selectedPlaylist (state w) | Some p \<Rightarrow> Some p)"
  by (simp add: dispatch_lobbyUpdate onLobbyUpdate_fields)

theorem lobbyUpdate_selectedPlaylist_witness:
  "selectedPlaylist (state (dispatch ada_env
      (LobbyUpdate \<lparr>lobby_players = [ada], spotifyPlaylist = None\<rparr>) ready_world)) = Some mix \<and>
   selectedPlaylist (state (dispatch ada_env
      (LobbyUpdate \<lparr>lobby_players = [ada], spotifyPlaylist = Some (mix\<lparr>pl_id := ''p2''\<rparr>)\<rparr>) ready_world))
     = Some (mix\<lparr>pl_id := ''p2''\<rparr>)"
proof -
  have o: "only_listener EvLobbyUpdate LobbyUpdateHandler ready_world"
    by (simp add: only_listener_def ready_world_def lobby_listeners_def)
  have s: "selectedPlaylist (state ready_world) = Some mix"
    by (simp add: ready_world_def ready_state_def initial_state_def)
  show ?thesis
    using lobbyUpdate_selectedPlaylist [OF o, of ada_env "\<lparr>lobby_players = [ada], spotifyPlaylist = None\<rparr>"]
      lobbyUpdate_selectedPlaylist [OF o, of ada_env
        "\<lparr>lobby_players = [ada], spotifyPlaylist = Some (mix\<lparr>pl_id := ''p2''\<rparr>)\<rparr>"]
    by (simp add: s)
qed

section \<open>Starting the game\<close>

lemma clickStartGame_enabled:
  "isHost e \<Longrightarrow> \<not> startDisabled (state w) \<Longrightarrow>
   clickStartGame e w = handleStartGame e (state w) w"
  by (simp add: clickStartGame_def startDisabled_def)

lemma handleStartGame_started:
  "socket e = Some s \<Longrightarrow> selectedPlaylist r = Some pl \<Longrightarrow> spotifyToken r = Some tok \<Longrightarrow>
   tok \<noteq> [] \<Longrightarrow>
   handleStartGame e r w =
     \<lparr>state = (state w)\<lparr>isStarting := True\<rparr>,
      effects = effects w @ [ConsoleLog ''Starting game with:'', Emit (StartGame (lobbyId e) tok)],
      listeners = listeners w @
        [\<lparr>l_event = EvGameStateUpdate, l_once = True, l_handler = StartAckHandler pl tok\<rparr>,
         \<lparr>l_event = EvError, l_once = True, l_handler = StartErrorHandler\<rparr>],
      timers = timers w @ [(5000, StartTimeout (isStarting r))]\<rparr>"
  by (simp add: handleStartGame_def Let_def perform_def)

lemma handleStartGame_refused:
  "socket e = None \<or> selectedPlaylist r = None \<or> \<not> truthy (spotifyToken r) \<Longrightarrow>
   handleStartGame e r w = perform [ConsoleError ''Missing required data:''] w"
  by (auto simp: handleStartGame_def truthy_def split: option.splits)

lemma enabled_fields:
  "\<not> startDisabled r \<Longrightarrow>
   \<exists>pl tok. selectedPlaylist r = Some pl \<and> spotifyToken r = Some tok \<and> tok \<noteq> [] \<and>
     nonHostsReady r \<and> \<not> isStarting r"
  by (auto simp: startDisabled_def truthy_def split: option.splits)

lemma ready_world_enabled: "\<not> startDisabled (state ready_world)"
  by (simp add: startDisabled_def truthy_def nonHostsReady_def ready_world_def ready_state_def
      initial_state_def ada_def bob_def)

lemma startDisabled_iff:
  "startDisabled r =
     (selectedPlaylist r = None \<or> spotifyToken r = None \<or> spotifyToken r = Some [] \<or>
      (\<exists>p \<in> set (players r). \<not> p_isHost p \<and> \<not> p_isReady p) \<or> isStarting r)"
  by (auto simp: startDisabled_def truthy_def nonHostsReady_iff split: option.splits)

lemma clickStartGame_disabled: "startDisabled (state w) \<Longrightarrow> clickStartGame e w = w"
  by (simp add: clickStartGame_def)

text \<open>
  C3. Starting a game is guarded. \<open>handleStartGame\<close> tests the socket, the selection
  and the token itself; its only call site is the click of the start control, whose
  \<open>disabled\<close> attribute tests the readiness of the players in the same render. So a
  click changes something only when a playlist is selected, the token is present (a
  non-empty string) and every non-host player is ready; when the selection or the
  token is missing, or some non-host player is not ready, the click emits nothing and
  leaves the state, and everything else, as it was. When the conditions hold, for a
  host with a socket and no start in flight, the click emits \<open>startGame\<close> with the lobby
  id and the token and sets \<open>isStarting\<close>.
\<close>

theorem startGame_guarded:
  "(clickStartGame e w \<noteq> w \<longrightarrow>
      selectedPlaylist (state w) \<noteq> None \<and>
      (\<exists>tok. spotifyToken (state w) = Some tok \<and> tok \<noteq> []) \<and>
      (\<forall>p \<in> set (players (state w)). p_isHost p = False \<longrightarrow> p_isReady p = True)) \<and>
   (selectedPlaylist (state w) = None \<or> spotifyToken (state w) = None \<or>
    spotifyToken (state w) = Some [] \<or>
    (\<exists>p \<in> set (players (state w)). p_isHost p = False \<and> p_isReady p = False) \<longrightarrow>
      clickStartGame e w = w) \<and>
   (isHost e \<and> socket e \<noteq> None \<and> selectedPlaylist (state w) \<noteq> None \<and>
    (\<forall>p \<in> set (players (state w)). p_isHost p = False \<longrightarrow> p_isReady p = True) \<and>
    \<not> isStarting (state w) \<longrightarrow>
      (\<forall>tok. spotifyToken (state w) = Some tok \<and> tok \<noteq> [] \<longrightarrow>
         effects (clickStartGame e w) =
           effects w @ [ConsoleLog ''Starting game with:'', Emit (StartGame (lobbyId e) tok)] \<and>
         emitted (clickStartGame e w) = emitted w @ [StartGame (lobbyId e) tok] \<and>
         state (clickStartGame e w) = (state w)\<lparr>isStarting := True\<rparr>))"
proof (intro conjI impI allI)
  assume "clickStartGame e w \<noteq> w"
  then have "\<not> startDisabled (state w)"
    using clickStartGame_disabled by blast
  then show "selectedPlaylist (state w) \<noteq> None"
    and "\<exists>tok. spotifyToken (state w) = Some tok \<and> tok \<noteq> []"
    and "\<forall>p \<in> set (players (state w)). p_isHost p = False \<longrightarrow> p_isReady p = True"
    by (auto simp: startDisabled_iff)
next
  assume "selectedPlaylist (state w) = None \<or> spotifyToken (state w) = None \<or>
    spotifyToken (state w) = Some [] \<or>
    (\<exists>p \<in> set (players (state w)). p_isHost p = False \<and> p_isReady p = False)"
  then have "startDisabled (state w)" by (auto simp: startDisabled_iff)
  then show "clickStartGame e w = w" by (rule clickStartGame_disabled)
next
  fix tok
  assume a: "isHost e \<and> socket e \<noteq> None \<and> selectedPlaylist (state w) \<noteq> None \<and>
    (\<forall>p \<in> set (players (state w)). p_isHost p = False \<longrightarrow> p_isReady p = True) \<and>
    \<not> isStarting (state w)"
    and t: "spotifyToken (state w) = Some tok \<and> tok \<noteq> []"
  then have en: "\<not> startDisabled (state w)" by (auto simp: startDisabled_iff)
  from a obtain s pl where g: "socket e = Some s" "selectedPlaylist (state w) = Some pl" by blast
  have c: "clickStartGame e w =
     \<lparr>state = (state w)\<lparr>isStarting := True\<rparr>,
      effects = effects w @ [ConsoleLog ''Starting game with:'', Emit (StartGame (lobbyId e) tok)],
      listeners = listeners w @
        [\<lparr>l_event = EvGameStateUpdate, l_once = True, l_handler = StartAckHandler pl tok\<rparr>,
         \<lparr>l_event = EvError, l_once = True, l_handler = StartErrorHandler\<rparr>],
      timers = timers w @ [(5000, StartTimeout (isStarting (state w)))]\<rparr>"
    using a t en by (simp add: clickStartGame_enabled handleStartGame_started [OF g])
  show "effects (clickStartGame e w) =
           effects w @ [ConsoleLog ''Starting game with:'', Emit (StartGame (lobbyId e) tok)]"
    by (simp add: c)
  show "emitted (clickStartGame e w) = emitted w @ [StartGame (lobbyId e) tok]"
    by (simp add: c emitted_def)
  show "state (clickStartGame e w) = (state w)\<lparr>isStarting := True\<rparr>"
    by (simp add: c)
qed

theorem startGame_guarded_witness:
  "emitted (clickStartGame ada_env ready_world) = [StartGame ''ABCD'' ''tok''] \<and>
   isStarting (state (clickStartGame ada_env ready_world)) \<and>
   clickStartGame ada_env unready_world = unready_world \<and>
   clickStartGame ada_env (ready_world\<lparr>state := initial_state\<rparr>) = ready_world\<lparr>state := initial_state\<rparr>"
proof -
  have pre: "isHost ada_env \<and> socket ada_env \<noteq> None \<and> selectedPlaylist (state ready_world) \<noteq> None \<and>
      (\<forall>p \<in> set (players (state ready_world)). p_isHost p = False \<longrightarrow> p_isReady p = True) \<and>
      \<not> isStarting (state ready_world)"
    by (simp add: ada_env_def ready_state_def initial_state_def ready_world_def ada_def bob_def)
  have tok: "spotifyToken (state ready_world) = Some ''tok'' \<and> ''tok'' \<noteq> []"
    by (simp add: ready_state_def initial_state_def ready_world_def)
  from startGame_guarded [of ada_env ready_world] pre tok
  have "emitted (clickStartGame ada_env ready_world) = emitted ready_world @ [StartGame (lobbyId ada_env) ''tok''] \<and>
      state (clickStartGame ada_env ready_world) = (state ready_world)\<lparr>isStarting := True\<rparr>"
    by blast
  then have a: "emitted (clickStartGame ada_env ready_world) = [StartGame ''ABCD'' ''tok'']"
    and b: "isStarting (state (clickStartGame ada_env ready_world))"
    by (simp_all add: emitted_def ready_world_def ada_env_def)
  have "\<exists>p \<in> set (players (state unready_world)). p_isHost p = False \<and> p_isReady p = False"
    by (simp add: unready_world_def ready_world_def ready_state_def initial_state_def bob_def)
  with startGame_guarded [of ada_env unready_world]
  have c: "clickStartGame ada_env unready_world = unready_world" by blast
  have "selectedPlaylist (state (ready_world\<lparr>state := initial_state\<rparr>)) = None"
    by (simp add: initial_state_def)
  with startGame_guarded [of ada_env "ready_world\<lparr>state := initial_state\<rparr>"]
  have d: "clickStartGame ada_env (ready_world\<lparr>state := initial_state\<rparr>) = ready_world\<lparr>state := initial_state\<rparr>"
    by blast
  from a b c d show ?thesis by blast
qed

text \<open>
  The timeout callback tests the \<open>isStarting\<close> of the render whose handler was called.
  The start control is disabled while \<open>isStarting\<close> holds, so that constant is false
  for every click, and the callback does nothing when the timer expires.
\<close>

lemma stale_timeout_is_silent:
  assumes "timers w = []" and "isHost e" and "\<not> startDisabled (state w)" and "socket e \<noteq> None"
  shows "timers (clickStartGame e w) = [(5000, StartTimeout False)] \<and>
     isStarting (state (clickStartGame e w)) \<and>
     state (expire_timers (clickStartGame e w)) = state (clickStartGame e w) \<and>
     effects (expire_timers (clickStartGame e w)) = effects (clickStartGame e w)"
proof -
  obtain s where s: "socket e = Some s" using assms(4) by blast
  obtain pl tok where f: "selectedPlaylist (state w) = Some pl" "spotifyToken (state w) = Some tok"
      "tok \<noteq> []" and i: "\<not> isStarting (state w)"
    using enabled_fields [OF assms(3)] by blast
  show ?thesis
    by (simp add: clickStartGame_enabled [OF assms(2,3)] handleStartGame_started [OF s f] assms(1) i
        expire_timers_def)
qed

text \<open>
  C2, on the code. The host clicks the enabled start control and neither a
  \<open>gameStateUpdate\<close> nor an \<open>error\<close> event arrives. The click emits \<open>startGame\<close>, sets
  \<open>isStarting\<close> and arms a 5000 ms timer whose callback captured \<open>isStarting = false\<close>;
  when the timer expires \<open>isStarting\<close> is still true and nothing has been alerted.
  The transition to a failure-reported, non-starting state happens zero times.
\<close>

theorem start_timeout_never_reports:
  "emitted (clickStartGame ada_env ready_world) = [StartGame ''ABCD'' ''tok''] \<and>
   timers (clickStartGame ada_env ready_world) = [(5000, StartTimeout False)] \<and>
   isStarting (state (clickStartGame ada_env ready_world)) \<and>
   isStarting (state (expire_timers (clickStartGame ada_env ready_world))) \<and>
   alerts (expire_timers (clickStartGame ada_env ready_world)) = []"
proof -
  have c: "clickStartGame ada_env ready_world =
     \<lparr>state = ready_state\<lparr>isStarting := True\<rparr>,
      effects = [ConsoleLog ''Starting game with:'', Emit (StartGame ''ABCD'' ''tok'')],
      listeners = lobby_listeners @
        [\<lparr>l_event = EvGameStateUpdate, l_once = True, l_handler = StartAckHandler mix ''tok''\<rparr>,
         \<lparr>l_event = EvError, l_once = True, l_handler = StartErrorHandler\<rparr>],
      timers = [(5000, StartTimeout False)]\<rparr>"
    using ready_world_enabled
    by (simp add: clickStartGame_enabled handleStartGame_def ada_env_def ready_world_def
        ready_state_def initial_state_def Let_def perform_def)
  show ?thesis
    by (simp add: c expire_timers_def emitted_def alerts_def)
qed

















lemma lobbyEffect_fields:
  "socket e \<noteq> None \<Longrightarrow> listeners (lobbyEffect e w) = listeners w @ lobby_listeners"
  "state (lobbyEffect e w) = state w"
  "timers (lobbyEffect e w) = timers w"
  by (auto simp: lobbyEffect_def joinLobby_def Let_def split: option.splits)

lemma cleanup_after_effect:
  "socket e \<noteq> None \<Longrightarrow> listeners w = [] \<Longrightarrow> listeners (cleanup_of e (lobbyEffect e w)) = []"
  "state (cleanup_of e (lobbyEffect e w)) = state w"
  "timers (cleanup_of e (lobbyEffect e w)) = timers w"
  by (auto simp: cleanup_of_def lobbyCleanup_def lobbyEffect_fields lobby_listeners_def)

lemma effect_runs_mounted:
  "socket e \<noteq> None \<Longrightarrow> listeners w = [] \<Longrightarrow>
   listeners (effect_runs e (replicate n e) w) = lobby_listeners \<and>
   state (effect_runs e (replicate n e) w) = state w \<and>
   timers (effect_runs e (replicate n e) w) = timers w"
proof (induction n arbitrary: w)
  case 0
  then show ?case by (simp add: lobbyEffect_fields)
next
  case (Suc n)
  from Suc.prems have "listeners (cleanup_of e (lobbyEffect e w)) = []"
    by (simp add: cleanup_after_effect)
  from Suc.IH [OF Suc.prems(1) this] show ?case
    by (simp add: cleanup_after_effect)
qed


lemma mounted_only_listeners:
  assumes "socket e \<noteq> None"
  shows "only_listener EvLobbyUpdate LobbyUpdateHandler (effect_runs e (replicate n e) fresh_world)"
    and "only_listener EvError ErrorHandler (effect_runs e (replicate n e) fresh_world)"
proof -
  have "listeners fresh_world = []" by (simp add: fresh_world_def)
  from effect_runs_mounted [OF assms this, of n]
  show "only_listener EvLobbyUpdate LobbyUpdateHandler (effect_runs e (replicate n e) fresh_world)"
    and "only_listener EvError ErrorHandler (effect_runs e (replicate n e) fresh_world)"
    by (simp_all add: only_listener_def lobby_listeners_def)
qed






section \<open>Formatting the catalog response\<close>

lemma has_tracks_iff: "has_tracks x = (\<exists>i t. x = Some i \<and> item_tracks i = Some t)"
  by (auto simp: has_tracks_def split: option.splits)

lemma format_item_kept:
  "x = Some i \<Longrightarrow> item_tracks i = Some t \<Longrightarrow>
   format_item x =
     Some \<lparr>pl_id = item_id i,
           pl_name = (case item_name i of None \<Rightarrow> ''Unnamed Playlist''
                      | Some n \<Rightarrow> if n = [] then ''Unnamed Playlist'' else n),
           pl_tracks = (case tracks_total t of None \<Rightarrow> 0 | Some n \<Rightarrow> n),
           pl_imageUrl = (case item_images i of None \<Rightarrow> None | Some [] \<Rightarrow> None
                          | Some (im # _) \<Rightarrow>
                              (case url im of None \<Rightarrow> None
                               | Some u \<Rightarrow> if u = [] then None else Some u))\<rparr>"
  by (auto simp: format_item_def str_or_def num_or_def truthy_def first_image_url_def
      split: option.splits list.splits)

lemma format_item_defined: "has_tracks x \<Longrightarrow> \<exists>p. format_item x = Some p"
  by (auto simp: has_tracks_iff format_item_def)

lemma those_map_Some [simp]: "those (map Some ps) = Some ps"
  by (induction ps) simp_all

lemma formatted_general:
  "\<exists>ps. formattedPlaylists items = Some ps \<and>
        map Some ps = map format_item (filter has_tracks items)"
proof -
  have "\<exists>ps. map Some ps = map format_item xs" if "list_all has_tracks xs" for xs
    using that
  proof (induction xs)
    case Nil
    show ?case by simp
  next
    case (Cons x xs)
    then obtain ps where ps: "map Some ps = map format_item xs" by auto
    from Cons.prems obtain p where "format_item x = Some p"
      using format_item_defined by auto
    with ps have "map Some (p # ps) = map format_item (x # xs)" by simp
    then show ?case by blast
  qed
  moreover have "list_all has_tracks (filter has_tracks items)"
    by (simp add: list_all_iff)
  ultimately obtain ps where ps: "map Some ps = map format_item (filter has_tracks items)"
    by blast
  then have "formattedPlaylists items = Some ps"
    by (simp add: formattedPlaylists_def ps [symmetric])
  with ps show ?thesis by blast
qed

text \<open>
  C7. The formatter never throws. Its result has one playlist for each item that is
  not null and has a \<open>tracks\<close> field, in input order, and no other: its length is the
  number of items minus the number of items lacking track metadata. A kept item is
  formatted with its id, its name or \<open>Unnamed Playlist\<close> when the name is missing (or
  empty), its track total or 0, and the url of its first image or nothing when there
  is none. For three items of which exactly one lacks track metadata, whichever one,
  the result is the two formatted others in their original order.
\<close>

theorem catalog_formatter:
  "(\<exists>ps. formattedPlaylists items = Some ps \<and>
         map Some ps = map format_item (filter has_tracks items) \<and>
         length ps = length items - length (filter (\<lambda>x. \<not> has_tracks x) items)) \<and>
   has_tracks x = (\<exists>i t. x = Some i \<and> item_tracks i = Some t) \<and>
   (\<forall>i t. x = Some i \<and> item_tracks i = Some t \<longrightarrow>
      format_item x =
        Some \<lparr>pl_id = item_id i,
              pl_name = (case item_name i of None \<Rightarrow> ''Unnamed Playlist''
                         | Some n \<Rightarrow> if n = [] then ''Unnamed Playlist'' else n),
              pl_tracks = (case tracks_total t of None \<Rightarrow> 0 | Some n \<Rightarrow> n),
              pl_imageUrl = (case item_images i of None \<Rightarrow> None | Some [] \<Rightarrow> None
                             | Some (im # _) \<Rightarrow>
                                 (case url im of None \<Rightarrow> None
                                  | Some u \<Rightarrow> if u = [] then None else Some u))\<rparr>) \<and>
   (\<not> has_tracks a \<and> has_tracks b \<and> has_tracks c \<longrightarrow>
      (\<exists>p q. format_item b = Some p \<and> format_item c = Some q \<and>
             formattedPlaylists [a, b, c] = Some [p, q])) \<and>
   (has_tracks a \<and> \<not> has_tracks b \<and> has_tracks c \<longrightarrow>
      (\<exists>p q. format_item a = Some p \<and> format_item c = Some q \<and>
             formattedPlaylists [a, b, c] = Some [p, q])) \<and>
   (has_tracks a \<and> has_tracks b \<and> \<not> has_tracks c \<longrightarrow>
      (\<exists>p q. format_item a = Some p \<and> format_item b = Some q \<and>
             formattedPlaylists [a, b, c] = Some [p, q]))"
proof (intro conjI allI impI)
  obtain ps where ps: "formattedPlaylists items = Some ps"
      "map Some ps = map format_item (filter has_tracks items)"
    using formatted_general by blast
  have "length ps = length (map Some ps)" by simp
  also have "\<dots> = length (filter has_tracks items)" by (simp add: ps(2))
  also have "\<dots> = length items - length (filter (\<lambda>x. \<not> has_tracks x) items)"
    using sum_length_filter_compl [of has_tracks items] by simp
  finally show "\<exists>ps. formattedPlaylists items = Some ps \<and>
         map Some ps = map format_item (filter has_tracks items) \<and>
         length ps = length items - length (filter (\<lambda>x. \<not> has_tracks x) items)"
    using ps by blast
  show "has_tracks x = (\<exists>i t. x = Some i \<and> item_tracks i = Some t)"
    by (rule has_tracks_iff)
next
  fix i t
  assume "x = Some i \<and> item_tracks i = Some t"
  then show "format_item x =
        Some \<lparr>pl_id = item_id i,
              pl_name = (case item_name i of None \<Rightarrow> ''Unnamed Playlist''
                         | Some n \<Rightarrow> if n = [] then ''Unnamed Playlist'' else n),
              pl_tracks = (case tracks_total t of None \<Rightarrow> 0 | Some n \<Rightarrow> n),
              pl_imageUrl = (case item_images i of None \<Rightarrow> None | Some [] \<Rightarrow> None
                             | Some (im # _) \<Rightarrow>
                                 (case url im of None \<Rightarrow> None
                                  | Some u \<Rightarrow> if u = [] then None else Some u))\<rparr>"
    by (simp add: format_item_kept)
next
  assume h: "\<not> has_tracks a \<and> has_tracks b \<and> has_tracks c"
  then obtain p q where "format_item b = Some p" "format_item c = Some q"
    using format_item_defined by blast
  with h show "\<exists>p q. format_item b = Some p \<and> format_item c = Some q \<and>
             formattedPlaylists [a, b, c] = Some [p, q]"
    by (simp add: formattedPlaylists_def)
next
  assume h: "has_tracks a \<and> \<not> has_tracks b \<and> has_tracks c"
  then obtain p q where "format_item a = Some p" "format_item c = Some q"
    using format_item_defined by blast
  with h show "\<exists>p q. format_item a = Some p \<and> format_item c = Some q \<and>
             formattedPlaylists [a, b, c] = Some [p, q]"
    by (simp add: formattedPlaylists_def)
next
  assume h: "has_tracks a \<and> has_tracks b \<and> \<not> has_tracks c"
  then obtain p q where "format_item a = Some p" "format_item b = Some q"
    using format_item_defined by blast
  with h show "\<exists>p q. format_item a = Some p \<and> format_item b = Some q \<and>
             formattedPlaylists [a, b, c] = Some [p, q]"
    by (simp add: formattedPlaylists_def)
qed

theorem catalog_formatter_witness:
  "formattedPlaylists [Some item_a, Some item_b, Some item_c] =
     Some [\<lparr>pl_id = ''a'', pl_name = ''Road'', pl_tracks = 3, pl_imageUrl = Some ''http://img/a''\<rparr>,
           \<lparr>pl_id = ''c'', pl_name = ''Unnamed Playlist'', pl_tracks = 0, pl_imageUrl = None\<rparr>]"
proof -
  have h: "has_tracks (Some item_a) \<and> \<not> has_tracks (Some item_b) \<and> has_tracks (Some item_c)"
    by (simp add: has_tracks_def item_a_def item_b_def item_c_def)
  have a: "item_tracks item_a = Some \<lparr>tracks_total = Some 3\<rparr>"
    and c: "item_tracks item_c = Some \<lparr>tracks_total = None\<rparr>"
    by (simp_all add: item_a_def item_c_def)
  have fa: "format_item (Some item_a) =
      Some \<lparr>pl_id = ''a'', pl_name = ''Road'', pl_tracks = 3, pl_imageUrl = Some ''http://img/a''\<rparr>"
    using catalog_formatter [of "[]" "Some item_a"] a by (simp add: item_a_def)
  have fc: "format_item (Some item_c) =
      Some \<lparr>pl_id = ''c'', pl_name = ''Unnamed Playlist'', pl_tracks = 0, pl_imageUrl = None\<rparr>"
    using catalog_formatter [of "[]" "Some item_c"] c by (simp add: item_c_def)
  from catalog_formatter [of "[]" None "Some item_a" "Some item_b" "Some item_c"] h
  show ?thesis by (simp add: fa fc)
qed

end
